theory Spec2Isabelle
  imports Complex_Main "HOL-Library.Word" "HOL-Library.Stream"
begin

section \<open>Data\<close>

text \<open>
  The program \<^verbatim>\<open>audio_patch.py\<close> patches a sound card input into a voice channel.
  \<^verbatim>\<open>SoundDeviceSource\<close> captures 16-bit mono samples and duplicates each of them into a
  stereo frame; \<^verbatim>\<open>VoxSource\<close> wraps a source and switches transmission on and off.

  A Python \<^verbatim>\<open>bytes\<close> object is a list of bytes; iterating over it yields the unsigned
  values 0..255. The samples of the capture stream have dtype \<^verbatim>\<open>int16\<close>.
\<close>

type_synonym byte = "8 word"
type_synonym int16 = "16 word"

datatype error = ValueError string | AttributeError string

section \<open>SoundDeviceSource\<close>

text \<open>
  The capture stream belongs to the sounddevice library. It is opened with one channel
  and dtype int16, and is represented by the samples the device will still deliver.
  \<^verbatim>\<open>stream.read(frames)\<close> blocks until \<open>frames\<close> frames are there and returns an array of
  shape \<open>(frames, 1)\<close>: a list of rows, one sample in each row (the overflow flag the
  library returns beside it is dropped by the program).
\<close>

definition stream_read :: "nat \<Rightarrow> int16 stream \<Rightarrow> int16 list list \<times> int16 stream" where
  "stream_read frames s = (map (\<lambda>x. [x]) (stake frames s), sdrop frames s)"

text \<open>\<^verbatim>\<open>np.repeat(a, repeats, 1)\<close>: every element is repeated along axis 1, inside its row.\<close>

definition np_repeat :: "nat \<Rightarrow> 'a list list \<Rightarrow> 'a list list" where
  "np_repeat repeats a = map (\<lambda>row. concat (map (replicate repeats) row)) a"

text \<open>The two bytes of an int16 sample, low byte first.\<close>

definition int16_bytes :: "int16 \<Rightarrow> byte list" where
  "int16_bytes w = [ucast w, ucast (drop_bit 8 w)]"

text \<open>\<^verbatim>\<open>a.data.tobytes()\<close>: the elements in row-major order, each as its bytes.\<close>

definition tobytes :: "int16 list list \<Rightarrow> byte list" where
  "tobytes a = concat (map int16_bytes (concat a))"

text \<open>
  \<^verbatim>\<open>
  def read(self):
      (data, _) = self.stream.read(960)
      data = np.repeat(data, 2, 1)
      return data.data.tobytes()
  \<close>
\<close>

definition SoundDeviceSource_read :: "int16 stream \<Rightarrow> byte list \<times> int16 stream" where
  "SoundDeviceSource_read stream =
     (let (data, stream) = stream_read 960 stream;
          data = np_repeat 2 data
      in (tobytes data, stream))"


section \<open>VoxSource\<close>

text \<open>
  The source wrapped by a \<^verbatim>\<open>VoxSource\<close> is any audio source: what \<^verbatim>\<open>is_opus()\<close> answers and
  the frames its successive \<^verbatim>\<open>read()\<close> calls return.
\<close>

record AudioSource =
  is_opus :: bool
  pending :: "byte list stream"

definition source_read :: "AudioSource \<Rightarrow> byte list \<times> AudioSource" where
  "source_read s = (shd (pending s), s\<lparr>pending := stl (pending s)\<rparr>)"

text \<open>
  The attributes of a \<^verbatim>\<open>VoxSource\<close>. \<open>voice\<close> is \<open>None\<close> as long as no voice client is
  attached, and \<open>Some n\<close> for an attached client whose \<^verbatim>\<open>play\<close> has been called \<open>n\<close> times.
\<close>

record VoxSource =
  source :: AudioSource
  active :: bool
  threshold :: int
  duration :: int
  silent_for :: int
  voice :: "nat option"

text \<open>Python's \<^verbatim>\<open>max(data)\<close> on bytes: the largest byte value; an empty argument raises.\<close>

fun py_max :: "byte list \<Rightarrow> error + int" where
  "py_max [] = Inl (ValueError ''max() arg is an empty sequence'')"
| "py_max (b # bs) = Inr (fold (\<lambda>x m. max m (uint x)) bs (uint b))"

subsection \<open>Construction\<close>

text \<open>
  \<^verbatim>\<open>
  def __init__(self, source):
      self.source = source
      self.active = False
      self.threshold = 16
      self.duration = 25
      self.silent_for = 0
      if self.source.is_opus():
          raise ValueError("cannot use VoxSource with an Opus source")
      self.voice = None
      self.task = None
  \<close>
  The constructor assigns attributes one after the other, so the object under
  construction is a store from attribute names to values, and the result says whether
  an exception left the constructor.
\<close>

datatype pyval = PySource AudioSource | PyBool bool | PyInt int | PyNone

definition VoxSource_init ::
  "AudioSource \<Rightarrow> (string \<rightharpoonup> pyval) \<Rightarrow> error option \<times> (string \<rightharpoonup> pyval)" where
  "VoxSource_init src self =
     (let self = self(''source'' \<mapsto> PySource src);
          self = self(''active'' \<mapsto> PyBool False);
          self = self(''threshold'' \<mapsto> PyInt 16);
          self = self(''duration'' \<mapsto> PyInt 25);
          self = self(''silent_for'' \<mapsto> PyInt 0)
      in if is_opus src
         then (Some (ValueError ''cannot use VoxSource with an Opus source''), self)
         else (None, self(''voice'' \<mapsto> PyNone, ''task'' \<mapsto> PyNone)))"

text \<open>The record view of a constructed object (the task handle is not part of it).\<close>

definition as_VoxSource :: "(string \<rightharpoonup> pyval) \<Rightarrow> VoxSource option" where
  "as_VoxSource self =
     (case (self ''source'', self ''active'', self ''threshold'', self ''duration'',
            self ''silent_for'', self ''voice'') of
        (Some (PySource s), Some (PyBool a), Some (PyInt t), Some (PyInt d),
         Some (PyInt c), Some PyNone) \<Rightarrow>
          Some \<lparr>source = s, active = a, threshold = t, duration = d, silent_for = c,
                voice = None\<rparr>
      | _ \<Rightarrow> None)"

text \<open>\<^verbatim>\<open>start_vox(voice)\<close> attaches the voice client (and creates the task running \<^verbatim>\<open>on_vox\<close>).\<close>

definition start_vox :: "nat \<Rightarrow> VoxSource \<Rightarrow> VoxSource" where
  "start_vox v self = self\<lparr>voice := Some v\<rparr>"

subsection \<open>read\<close>

text \<open>
  \<^verbatim>\<open>
  def read(self):
      data = self.source.read()
      if self.active:
          if max(data) < self.threshold:
              self.silent_for += 1
              if self.silent_for >= self.duration:
                  print('VOX off')
                  self.active = False
                  return bytes([])
          else:
              self.silent_for = 0
      return data
  \<close>
  The result is the returned buffer or the exception raised, together with the object
  as the call leaves it.
\<close>

definition VoxSource_read :: "VoxSource \<Rightarrow> (error + byte list) \<times> VoxSource" where
  "VoxSource_read self =
     (let (data, src) = source_read (source self);
          self = self\<lparr>source := src\<rparr>
      in if active self then
           (case py_max data of
              Inl e \<Rightarrow> (Inl e, self)
            | Inr m \<Rightarrow>
                if m < threshold self then
                  (let self = self\<lparr>silent_for := silent_for self + 1\<rparr>
                   in if silent_for self \<ge> duration self
                      then (Inr [], self\<lparr>active := False\<rparr>)
                      else (Inr data, self))
                else (Inr data, self\<lparr>silent_for := 0\<rparr>))
         else (Inr data, self))"

subsection \<open>on_vox\<close>

text \<open>
  \<^verbatim>\<open>
  async def on_vox(self):
      loop = asyncio.get_running_loop()
      while True:
          start_time = loop.time()
          if not self.active:
              data = self.read()
              if max(data) >= self.threshold:
                  print('VOX on')
                  self.active = True
                  self.voice.play(self)
          await asyncio.sleep(loop.time() - start_time + 0.002)
  \<close>
  One pass through the loop body, up to the sleep. \<^verbatim>\<open>voice.play\<close> belongs to the voice
  client; here it counts its calls.
\<close>

definition on_vox_body :: "VoxSource \<Rightarrow> error option \<times> VoxSource" where
  "on_vox_body self =
     (if \<not> active self then
        (case VoxSource_read self of
           (Inl e, self) \<Rightarrow> (Some e, self)
         | (Inr data, self) \<Rightarrow>
             (case py_max data of
                Inl e \<Rightarrow> (Some e, self)
              | Inr m \<Rightarrow>
                  if m \<ge> threshold self then
                    (let self = self\<lparr>active := True\<rparr>
                     in case voice self of
                          None \<Rightarrow>
                            (Some (AttributeError
                               ''NoneType object has no attribute play''), self)
                        | Some n \<Rightarrow> (None, self\<lparr>voice := Some (n + 1)\<rparr>))
                  else (None, self)))
      else (None, self))"

text \<open>
  The argument of \<^verbatim>\<open>asyncio.sleep\<close>, from the timestamp taken at the start of the pass and
  the clock reading after the body. Clock readings are Python floats, taken here as
  real numbers of seconds.
\<close>

definition on_vox_sleep :: "real \<Rightarrow> real \<Rightarrow> real" where
  "on_vox_sleep start_time now = now - start_time + 0.002"

text \<open>
  The loop never ends by itself: it runs until the task is cancelled or an exception
  leaves it. \<open>on_vox n\<close> is the loop cancelled after \<open>n\<close> passes.
\<close>

fun on_vox :: "nat \<Rightarrow> VoxSource \<Rightarrow> error option \<times> VoxSource" where
  "on_vox 0 self = (None, self)"
| "on_vox (Suc n) self =
     (case on_vox_body self of
        (Some e, self) \<Rightarrow> (Some e, self)
      | (None, self) \<Rightarrow> on_vox n self)"

text \<open>
  While the voice client plays the source, its player calls \<^verbatim>\<open>read()\<close> again and again.
  \<open>read_times n\<close> is \<open>n\<close> calls in a row: what each returned, and the object after the
  last one.
\<close>

fun read_times :: "nat \<Rightarrow> VoxSource \<Rightarrow> (error + byte list) list \<times> VoxSource" where
  "read_times 0 self = ([], self)"
| "read_times (Suc n) self =
     (let (r, self) = VoxSource_read self;
          (rs, self) = read_times n self
      in (r # rs, self))"

subsection \<open>Peak amplitude as the specification words it\<close>

text \<open>
  The specification speaks of the peak absolute amplitude of a frame: the largest
  absolute value among its 16-bit signed samples. These two definitions follow those
  words (low byte first), to be compared with what \<open>py_max\<close> computes.
\<close>

fun spec_samples :: "byte list \<Rightarrow> int list" where
  "spec_samples (lo # hi # rest) =
     (let v = uint lo + 256 * uint hi
      in (if v < 32768 then v else v - 65536)) # spec_samples rest"
| "spec_samples _ = []"

definition spec_peak_amplitude :: "byte list \<Rightarrow> int" where
  "spec_peak_amplitude data = fold (\<lambda>s m. max m \<bar>s\<bar>) (spec_samples data) 0"

section \<open>The stereo frame of SoundDeviceSource\<close>


lemma tobytes_mono: "tobytes (map (\<lambda>x. [x]) ss) = concat (map int16_bytes ss)"
  by (induction ss) (simp_all add: tobytes_def)

lemma tobytes_upmix:
  "tobytes (np_repeat 2 (map (\<lambda>x. [x]) ss)) =
     concat (map (\<lambda>x. int16_bytes x @ int16_bytes x) ss)"
  by (induction ss) (simp_all add: tobytes_def np_repeat_def numeral_2_eq_2)

lemma length_mono_bytes: "length (concat (map int16_bytes ss)) = 2 * length ss"
  by (induction ss) (simp_all add: int16_bytes_def)

lemma length_upmix_bytes:
  "length (concat (map (\<lambda>x. int16_bytes x @ int16_bytes x) ss)) = 4 * length ss"
  by (induction ss) (simp_all add: int16_bytes_def)



lemma SoundDeviceSource_read_bytes:
  "SoundDeviceSource_read s =
     (concat (map (\<lambda>x. int16_bytes x @ int16_bytes x) (stake 960 s)), sdrop 960 s)"
  by (simp add: SoundDeviceSource_read_def stream_read_def tobytes_upmix)

lemma SoundDeviceSource_read_length: "length (fst (SoundDeviceSource_read s)) = 3840"
  by (simp add: SoundDeviceSource_read_bytes length_upmix_bytes)



text \<open>
  C6, as the claim states it, at a device that delivers silence: the frame returned by
  \<^verbatim>\<open>SoundDeviceSource.read\<close> is not a 1920-byte mono frame.
\<close>

theorem read_not_mono_frame_counterexample:
  "length (fst (SoundDeviceSource_read (sconst 0))) \<noteq> 1920"
  using SoundDeviceSource_read_length [of "sconst 0"] by simp

text \<open>
  C6, amended. Every call of \<^verbatim>\<open>SoundDeviceSource.read\<close> takes exactly 960 mono samples
  (1920 bytes of sample data) from the stream and returns them with each sample
  duplicated, as raw bytes: a stereo frame of 3840 bytes, never a shorter or
  differently shaped one.
\<close>

theorem read_stereo_frame:
  "length (fst (stream_read 960 s)) = 960 \<and>
   length (tobytes (fst (stream_read 960 s))) = 1920 \<and>
   fst (SoundDeviceSource_read s) = tobytes (np_repeat 2 (fst (stream_read 960 s))) \<and>
   length (fst (SoundDeviceSource_read s)) = 3840 \<and>
   snd (SoundDeviceSource_read s) = snd (stream_read 960 s)"
  by (simp add: SoundDeviceSource_read_bytes length_upmix_bytes length_mono_bytes
      tobytes_upmix tobytes_mono stream_read_def)

section \<open>What max(data) computes\<close>

lemma fold_max_less:
  "fold (\<lambda>x m. max m (uint x)) bs a < t \<longleftrightarrow> a < t \<and> (\<forall>b\<in>set bs. uint (b::byte) < t)"
  by (induction bs arbitrary: a) auto

lemma py_max_Inr: "data \<noteq> [] \<Longrightarrow> \<exists>m. py_max data = Inr m"
  by (cases data) simp_all

lemma py_max_less:
  "py_max data = Inr m \<Longrightarrow> m < t \<longleftrightarrow> (\<forall>b\<in>set data. uint b < t)"
  by (cases data) (auto simp: fold_max_less)

section \<open>The branches of read and of the on_vox body\<close>

lemma VoxSource_read_inactive:
  "\<not> active self \<Longrightarrow>
   VoxSource_read self =
     (Inr (shd (pending (source self))),
      self\<lparr>source := (source self)\<lparr>pending := stl (pending (source self))\<rparr>\<rparr>)"
  by (simp add: VoxSource_read_def source_read_def)

lemma VoxSource_read_active:
  assumes "active self" and "shd (pending (source self)) = data" and "data \<noteq> []"
  shows "VoxSource_read self =
     (if \<forall>b\<in>set data. uint b < threshold self
      then if duration self \<le> silent_for self + 1
           then (Inr [],
                 self\<lparr>source := (source self)\<lparr>pending := stl (pending (source self))\<rparr>,
                   silent_for := silent_for self + 1, active := False\<rparr>)
           else (Inr data,
                 self\<lparr>source := (source self)\<lparr>pending := stl (pending (source self))\<rparr>,
                   silent_for := silent_for self + 1\<rparr>)
      else (Inr data,
            self\<lparr>source := (source self)\<lparr>pending := stl (pending (source self))\<rparr>,
              silent_for := 0\<rparr>))"
proof -
  from assms(3) obtain m where m: "py_max data = Inr m"
    using py_max_Inr by blast
  from py_max_less [OF m]
  have "m < threshold self \<longleftrightarrow> (\<forall>b\<in>set data. uint b < threshold self)" .
  with m assms(1,2) show ?thesis
    by (simp add: VoxSource_read_def source_read_def Let_def)
qed

lemma VoxSource_read_error:
  "fst (VoxSource_read self) = Inl e \<Longrightarrow> e = ValueError ''max() arg is an empty sequence''"
  by (cases "shd (pending (source self))")
     (auto simp: VoxSource_read_def source_read_def Let_def split: if_splits)

lemma on_vox_body_inactive:
  assumes "\<not> active self" and "shd (pending (source self)) = data" and "data \<noteq> []"
  shows "on_vox_body self =
     (if \<forall>b\<in>set data. uint b < threshold self
      then (None, self\<lparr>source := (source self)\<lparr>pending := stl (pending (source self))\<rparr>\<rparr>)
      else (case voice self of
              None \<Rightarrow> (Some (AttributeError ''NoneType object has no attribute play''),
                 self\<lparr>source := (source self)\<lparr>pending := stl (pending (source self))\<rparr>,
                   active := True\<rparr>)
            | Some n \<Rightarrow> (None,
                 self\<lparr>source := (source self)\<lparr>pending := stl (pending (source self))\<rparr>,
                   active := True, voice := Some (n + 1)\<rparr>)))"
proof -
  from assms(3) obtain m where m: "py_max data = Inr m"
    using py_max_Inr by blast
  from py_max_less [OF m]
  have "m < threshold self \<longleftrightarrow> (\<forall>b\<in>set data. uint b < threshold self)" .
  then have iff: "threshold self \<le> m \<longleftrightarrow> \<not> (\<forall>b\<in>set data. uint b < threshold self)"
    by auto
  show ?thesis
  proof (cases "\<forall>b\<in>set data. uint b < threshold self")
    case True
    with iff m assms(1,2) show ?thesis
      by (simp add: on_vox_body_def VoxSource_read_inactive)
  next
    case False
    with iff have "threshold self \<le> m"
      by simp
    with m assms(1,2) have "on_vox_body self =
      (case voice self of
              None \<Rightarrow> (Some (AttributeError ''NoneType object has no attribute play''),
                 self\<lparr>source := (source self)\<lparr>pending := stl (pending (source self))\<rparr>,
                   active := True\<rparr>)
            | Some n \<Rightarrow> (None,
                 self\<lparr>source := (source self)\<lparr>pending := stl (pending (source self))\<rparr>,
                   active := True, voice := Some (n + 1)\<rparr>))"
      by (simp add: on_vox_body_def VoxSource_read_inactive split: option.splits)
    then show ?thesis
      by (simp add: False)
  qed
qed

lemma on_vox_body_active: "active self \<Longrightarrow> on_vox_body self = (None, self)"
  by (simp add: on_vox_body_def)

lemma on_vox_active: "active self \<Longrightarrow> on_vox k self = (None, self)"
  by (induction k) (simp_all add: on_vox_body_active)

text \<open>
  An inactive VoxSource whose wrapped source keeps returning one frame with every byte
  below the threshold is left as it is by any number of passes of the loop.
\<close>

lemma on_vox_quiet:
  assumes "\<not> active self" and "pending (source self) = sconst f" and "f \<noteq> []"
    and "\<forall>b\<in>set f. uint b < threshold self"
  shows "on_vox k self = (None, self)"
proof (induction k)
  case 0
  show ?case by simp
next
  case (Suc k)
  from assms have "on_vox_body self = (None, self)"
    using on_vox_body_inactive [of self f] by simp
  with Suc show ?case
    by simp
qed

text \<open>
  A freshly constructed object over a source that is not Opus: the attribute values the
  constructor leaves behind.
\<close>

lemma VoxSource_init_ok:
  "\<not> is_opus src \<Longrightarrow>
   fst (VoxSource_init src Map.empty) = None \<and>
   as_VoxSource (snd (VoxSource_init src Map.empty)) =
     Some \<lparr>source = src, active = False, threshold = 16, duration = 25, silent_for = 0,
           voice = None\<rparr>"
  by (simp add: VoxSource_init_def as_VoxSource_def)

text \<open>
  As long as the count stays below \<open>duration\<close>, an active VoxSource passes frames whose
  bytes are all below the threshold through and counts them.
\<close>

lemma read_times_quiet:
  assumes "active self" and "pending (source self) = fs @- rest"
    and "\<forall>f\<in>set fs. f \<noteq> [] \<and> (\<forall>b\<in>set f. uint b < threshold self)"
    and "silent_for self + int (length fs) < duration self"
  shows "read_times (length fs) self =
    (map Inr fs, self\<lparr>source := (source self)\<lparr>pending := rest\<rparr>,
                      silent_for := silent_for self + int (length fs)\<rparr>)"
  using assms
proof (induction fs arbitrary: self)
  case Nil
  then show ?case by simp
next
  case (Cons f fs)
  let ?self = "self\<lparr>source := (source self)\<lparr>pending := fs @- rest\<rparr>,
                    silent_for := silent_for self + 1\<rparr>"
  from Cons.prems have "VoxSource_read self = (Inr f, ?self)"
    using VoxSource_read_active [of self f] by simp
  moreover from Cons.prems have "read_times (length fs) ?self =
      (map Inr fs, ?self\<lparr>source := (source ?self)\<lparr>pending := rest\<rparr>,
                      silent_for := silent_for ?self + int (length fs)\<rparr>)"
    by (intro Cons.IH) simp_all
  ultimately show ?case
    by simp
qed

lemma on_vox_body_error:
  "fst (on_vox_body self) = Some e \<Longrightarrow>
   e = ValueError ''max() arg is an empty sequence'' \<or>
   e = AttributeError ''NoneType object has no attribute play''"
  by (cases "shd (pending (source self))")
     (auto simp: on_vox_body_def VoxSource_read_inactive Let_def
           split: if_splits option.splits)

section \<open>Switching off: the count of silent frames\<close>

text \<open>
  The state in which the player starts to read: a freshly constructed VoxSource with
  the voice client attached, switched on by the first pass of \<^verbatim>\<open>on_vox\<close> that samples a
  frame with a byte at or above the threshold.
\<close>

lemma switch_on_after_construction:
  assumes "\<not> is_opus src" and "shd (pending src) = loud" and "loud \<noteq> []"
    and "\<exists>b\<in>set loud. 16 \<le> uint b"
  shows "on_vox_body
      (start_vox v (the (as_VoxSource (snd (VoxSource_init src Map.empty))))) =
    (None, \<lparr>source = src\<lparr>pending := stl (pending src)\<rparr>, active = True, threshold = 16,
             duration = 25, silent_for = 0, voice = Some (v + 1)\<rparr>)"
proof -
  let ?g = "\<lparr>source = src, active = False, threshold = 16, duration = 25, silent_for = 0,
             voice = Some v\<rparr>"
  from assms(1) have "start_vox v (the (as_VoxSource (snd (VoxSource_init src Map.empty)))) = ?g"
    by (simp add: VoxSource_init_ok start_vox_def)
  moreover from assms(2-4) have "on_vox_body ?g =
    (None, \<lparr>source = src\<lparr>pending := stl (pending src)\<rparr>, active = True, threshold = 16,
             duration = 25, silent_for = 0, voice = Some (v + 1)\<rparr>)"
    using on_vox_body_inactive [of ?g loud] by (auto simp: not_less [symmetric])
  ultimately show ?thesis
    by simp
qed

text \<open>
  C1. An active VoxSource over a silent device (frames of 3840 zero bytes), threshold 16,
  duration 25: the first 24 calls of \<^verbatim>\<open>read()\<close> return the frame and count up to 24; the
  25th call returns the empty buffer and sets \<open>active\<close> to false, but it leaves
  \<open>silent_for\<close> at 25 instead of resetting it to 0, and the following call still finds 25.
\<close>

theorem hangover_off_keeps_silent_for:
  "read_times 24
     \<lparr>source = \<lparr>is_opus = False, pending = sconst (replicate 3840 0)\<rparr>,
       active = True, threshold = 16, duration = 25, silent_for = 0, voice = Some 1\<rparr> =
     (replicate 24 (Inr (replicate 3840 0)),
      \<lparr>source = \<lparr>is_opus = False, pending = sconst (replicate 3840 0)\<rparr>,
        active = True, threshold = 16, duration = 25, silent_for = 24, voice = Some 1\<rparr>) \<and>
   VoxSource_read
     \<lparr>source = \<lparr>is_opus = False, pending = sconst (replicate 3840 0)\<rparr>,
       active = True, threshold = 16, duration = 25, silent_for = 24, voice = Some 1\<rparr> =
     (Inr [],
      \<lparr>source = \<lparr>is_opus = False, pending = sconst (replicate 3840 0)\<rparr>,
        active = False, threshold = 16, duration = 25, silent_for = 25, voice = Some 1\<rparr>) \<and>
   silent_for (snd (VoxSource_read
     \<lparr>source = \<lparr>is_opus = False, pending = sconst (replicate 3840 0)\<rparr>,
       active = False, threshold = 16, duration = 25, silent_for = 25, voice = Some 1\<rparr>)) = 25"
proof -
  let ?q = "replicate 3840 (0 :: byte)"
  let ?g = "\<lambda>a c. \<lparr>source = \<lparr>is_opus = False, pending = sconst ?q\<rparr>,
       active = a, threshold = 16, duration = 25, silent_for = c, voice = Some 1\<rparr>"
  have "read_times 24 (?g True 0) = (replicate 24 (Inr ?q), ?g True 24)"
    using read_times_quiet [of "?g True 0" "replicate 24 ?q" "sconst ?q"] by simp
  moreover have "VoxSource_read (?g True 24) = (Inr [], ?g False 25)"
    using VoxSource_read_active [of "?g True 24" ?q] by simp
  moreover have "silent_for (snd (VoxSource_read (?g False 25))) = 25"
    using VoxSource_read_inactive [of "?g False 25"] by simp
  ultimately show ?thesis
    by simp
qed

section \<open>Switching on again after a switch-off\<close>

text \<open>
  C3. A VoxSource that has switched off once (\<open>active\<close> false, \<open>silent_for\<close> 25) samples
  a loud frame in \<^verbatim>\<open>on_vox\<close>: the pass sets \<open>active\<close> and calls \<^verbatim>\<open>voice.play\<close>, but
  \<open>silent_for\<close> stays 25 instead of being reset to 0. The first silent frame read after
  that switches the VoxSource off again at once.
\<close>

theorem on_vox_keeps_silent_for:
  "on_vox_body
     \<lparr>source = \<lparr>is_opus = False,
                pending = replicate 3840 20 ## sconst (replicate 3840 0)\<rparr>,
       active = False, threshold = 16, duration = 25, silent_for = 25, voice = Some 1\<rparr> =
     (None,
      \<lparr>source = \<lparr>is_opus = False, pending = sconst (replicate 3840 0)\<rparr>,
        active = True, threshold = 16, duration = 25, silent_for = 25, voice = Some 2\<rparr>) \<and>
   VoxSource_read
     \<lparr>source = \<lparr>is_opus = False, pending = sconst (replicate 3840 0)\<rparr>,
       active = True, threshold = 16, duration = 25, silent_for = 25, voice = Some 2\<rparr> =
     (Inr [],
      \<lparr>source = \<lparr>is_opus = False, pending = sconst (replicate 3840 0)\<rparr>,
        active = False, threshold = 16, duration = 25, silent_for = 26, voice = Some 2\<rparr>)"
proof -
  let ?q = "replicate 3840 (0 :: byte)"
  let ?l = "replicate 3840 (20 :: byte)"
  have "on_vox_body
     \<lparr>source = \<lparr>is_opus = False, pending = ?l ## sconst ?q\<rparr>,
       active = False, threshold = 16, duration = 25, silent_for = 25, voice = Some 1\<rparr> =
     (None,
      \<lparr>source = \<lparr>is_opus = False, pending = sconst ?q\<rparr>,
        active = True, threshold = 16, duration = 25, silent_for = 25, voice = Some 2\<rparr>)"
    using on_vox_body_inactive [of "\<lparr>source = \<lparr>is_opus = False, pending = ?l ## sconst ?q\<rparr>,
       active = False, threshold = 16, duration = 25, silent_for = 25, voice = Some 1\<rparr>" ?l]
    by simp
  moreover have "VoxSource_read
     \<lparr>source = \<lparr>is_opus = False, pending = sconst ?q\<rparr>,
       active = True, threshold = 16, duration = 25, silent_for = 25, voice = Some 2\<rparr> =
     (Inr [],
      \<lparr>source = \<lparr>is_opus = False, pending = sconst ?q\<rparr>,
        active = False, threshold = 16, duration = 25, silent_for = 26, voice = Some 2\<rparr>)"
    using VoxSource_read_active [of "\<lparr>source = \<lparr>is_opus = False, pending = sconst ?q\<rparr>,
       active = True, threshold = 16, duration = 25, silent_for = 25, voice = Some 2\<rparr>" ?q]
    by simp
  ultimately show ?thesis
    by simp
qed

section \<open>The sleep between two passes of on_vox\<close>

text \<open>
  C4. A pass of the \<^verbatim>\<open>on_vox\<close> loop that starts at clock reading 100 s and whose body is done
  1 ms later sleeps for 3 ms: the elapsed time is added to the 2 ms, not subtracted
  from them (which would give 1 ms).
\<close>

theorem sleep_adds_elapsed:
  "on_vox_sleep 100 100.001 = 0.003 \<and>
   on_vox_sleep 100 100.001 \<noteq> 0.002 - (100.001 - 100)"
  by (simp add: on_vox_sleep_def)

section \<open>What the threshold is compared with\<close>

text \<open>
  C2, as the claim states it, at a frame holding the single sample -1 (bytes FF FF):
  its peak absolute amplitude is 1, below the threshold 16, yet \<^verbatim>\<open>on_vox\<close> switches the
  VoxSource on for it and \<^verbatim>\<open>read()\<close> treats it as loud and resets the count. And the
  empty frame, which has no sample at all, is not classified: \<^verbatim>\<open>max\<close> raises.
\<close>

theorem amplitude_counterexample:
  "spec_peak_amplitude [255, 255] = 1 \<and>
   on_vox_body
     \<lparr>source = \<lparr>is_opus = False, pending = sconst []\<rparr>,
       active = False, threshold = 16, duration = 25, silent_for = 0, voice = Some 0\<rparr> =
     (Some (ValueError ''max() arg is an empty sequence''),
      \<lparr>source = \<lparr>is_opus = False, pending = sconst []\<rparr>,
       active = False, threshold = 16, duration = 25, silent_for = 0, voice = Some 0\<rparr>) \<and>
   on_vox_body
     \<lparr>source = \<lparr>is_opus = False, pending = sconst [255, 255]\<rparr>,
       active = False, threshold = 16, duration = 25, silent_for = 0, voice = Some 0\<rparr> =
     (None, \<lparr>source = \<lparr>is_opus = False, pending = sconst [255, 255]\<rparr>,
       active = True, threshold = 16, duration = 25, silent_for = 0, voice = Some 1\<rparr>) \<and>
   VoxSource_read
     \<lparr>source = \<lparr>is_opus = False, pending = sconst [255, 255]\<rparr>,
       active = True, threshold = 16, duration = 25, silent_for = 7, voice = Some 1\<rparr> =
     (Inr [255, 255], \<lparr>source = \<lparr>is_opus = False, pending = sconst [255, 255]\<rparr>,
       active = True, threshold = 16, duration = 25, silent_for = 0, voice = Some 1\<rparr>)"
  by (simp add: spec_peak_amplitude_def on_vox_body_def VoxSource_read_def source_read_def)

text \<open>
  C2, amended. Both decisions compare the largest byte value of the frame with the
  threshold. For a non-empty frame \<open>data\<close>: an active VoxSource counts the frame as
  silent in \<^verbatim>\<open>read()\<close> exactly when every byte is below the threshold (and otherwise
  resets the count and returns the frame); an inactive one is switched on by the
  \<^verbatim>\<open>on_vox\<close> pass exactly when some byte reaches the threshold.
\<close>

theorem gating_compares_max_byte:
  assumes "shd (pending (source self)) = data" and "data \<noteq> []"
  shows "(active self \<longrightarrow> VoxSource_read self =
     (if \<forall>b\<in>set data. uint b < threshold self
      then if duration self \<le> silent_for self + 1
           then (Inr [],
                 self\<lparr>source := (source self)\<lparr>pending := stl (pending (source self))\<rparr>,
                   silent_for := silent_for self + 1, active := False\<rparr>)
           else (Inr data,
                 self\<lparr>source := (source self)\<lparr>pending := stl (pending (source self))\<rparr>,
                   silent_for := silent_for self + 1\<rparr>)
      else (Inr data,
            self\<lparr>source := (source self)\<lparr>pending := stl (pending (source self))\<rparr>,
              silent_for := 0\<rparr>))) \<and>
   (\<not> active self \<longrightarrow> on_vox_body self =
     (if \<forall>b\<in>set data. uint b < threshold self
      then (None, self\<lparr>source := (source self)\<lparr>pending := stl (pending (source self))\<rparr>\<rparr>)
      else (case voice self of
              None \<Rightarrow> (Some (AttributeError ''NoneType object has no attribute play''),
                 self\<lparr>source := (source self)\<lparr>pending := stl (pending (source self))\<rparr>,
                   active := True\<rparr>)
            | Some n \<Rightarrow> (None,
                 self\<lparr>source := (source self)\<lparr>pending := stl (pending (source self))\<rparr>,
                   active := True, voice := Some (n + 1)\<rparr>))))"
  using VoxSource_read_active [OF _ assms] on_vox_body_inactive [OF _ assms] by blast

theorem gating_compares_max_byte_witness:
  "VoxSource_read
     \<lparr>source = \<lparr>is_opus = False, pending = sconst [0, 1]\<rparr>,
       active = True, threshold = 16, duration = 25, silent_for = 3, voice = Some 1\<rparr> =
     (Inr [0, 1], \<lparr>source = \<lparr>is_opus = False, pending = sconst [0, 1]\<rparr>,
       active = True, threshold = 16, duration = 25, silent_for = 4, voice = Some 1\<rparr>) \<and>
   on_vox_body
     \<lparr>source = \<lparr>is_opus = False, pending = sconst [0, 1]\<rparr>,
       active = False, threshold = 16, duration = 25, silent_for = 0, voice = Some 0\<rparr> =
     (None, \<lparr>source = \<lparr>is_opus = False, pending = sconst [0, 1]\<rparr>,
       active = False, threshold = 16, duration = 25, silent_for = 0, voice = Some 0\<rparr>)"
  using
    gating_compares_max_byte [of "\<lparr>source = \<lparr>is_opus = False, pending = sconst [0, 1]\<rparr>,
       active = True, threshold = 16, duration = 25, silent_for = 3, voice = Some 1\<rparr>" "[0, 1]"]
    gating_compares_max_byte [of "\<lparr>source = \<lparr>is_opus = False, pending = sconst [0, 1]\<rparr>,
       active = False, threshold = 16, duration = 25, silent_for = 0, voice = Some 0\<rparr>" "[0, 1]"]
  by simp

section \<open>What read returns\<close>

text \<open>
  C7, as the claim states it. An active VoxSource whose wrapped source returns the
  empty buffer does not return from \<^verbatim>\<open>read()\<close>: \<^verbatim>\<open>max\<close> raises. And the frame holding the
  single sample 256 (bytes 00 01) has peak amplitude 256, above the threshold 16, yet
  as the 25th frame in a row with no byte of 16 or more it switches the VoxSource off
  and the empty buffer is returned in its place.
\<close>

theorem read_result_counterexample:
  "VoxSource_read
     \<lparr>source = \<lparr>is_opus = False, pending = sconst []\<rparr>,
       active = True, threshold = 16, duration = 25, silent_for = 0, voice = Some 1\<rparr> =
     (Inl (ValueError ''max() arg is an empty sequence''),
      \<lparr>source = \<lparr>is_opus = False, pending = sconst []\<rparr>,
       active = True, threshold = 16, duration = 25, silent_for = 0, voice = Some 1\<rparr>) \<and>
   spec_peak_amplitude [0, 1] = 256 \<and>
   VoxSource_read
     \<lparr>source = \<lparr>is_opus = False, pending = sconst [0, 1]\<rparr>,
       active = True, threshold = 16, duration = 25, silent_for = 24, voice = Some 1\<rparr> =
     (Inr [], \<lparr>source = \<lparr>is_opus = False, pending = sconst [0, 1]\<rparr>,
       active = False, threshold = 16, duration = 25, silent_for = 25, voice = Some 1\<rparr>)"
  by (simp add: spec_peak_amplitude_def VoxSource_read_def source_read_def)

text \<open>
  C7, amended. Every call of \<^verbatim>\<open>read()\<close> that pulls a non-empty frame, and every call
  while the VoxSource is inactive, returns either the pulled buffer unchanged or the
  empty buffer. Whenever the VoxSource is active and some byte of the pulled frame is
  at or above the threshold, it stays active, resets the count and returns the frame
  unmodified.
\<close>

theorem read_returns_frame_or_empty:
  assumes "shd (pending (source self)) = data" and "data \<noteq> [] \<or> \<not> active self"
  shows "(fst (VoxSource_read self) = Inr data \<or> fst (VoxSource_read self) = Inr []) \<and>
    (active self \<and> (\<exists>b\<in>set data. threshold self \<le> uint b) \<longrightarrow>
       VoxSource_read self =
         (Inr data, self\<lparr>source := (source self)\<lparr>pending := stl (pending (source self))\<rparr>,
                     silent_for := 0\<rparr>) \<and>
       active (snd (VoxSource_read self)))"
proof (cases "active self")
  case False
  with assms(1) show ?thesis
    by (simp add: VoxSource_read_inactive)
next
  case True
  with assms(2) have "data \<noteq> []"
    by simp
  from VoxSource_read_active [OF True assms(1) this] True show ?thesis
    by (auto simp: not_less [symmetric])
qed

theorem read_returns_frame_or_empty_witness:
  "VoxSource_read
     \<lparr>source = \<lparr>is_opus = False, pending = sconst [20, 0]\<rparr>,
       active = True, threshold = 16, duration = 25, silent_for = 24, voice = Some 1\<rparr> =
     (Inr [20, 0], \<lparr>source = \<lparr>is_opus = False, pending = sconst [20, 0]\<rparr>,
       active = True, threshold = 16, duration = 25, silent_for = 0, voice = Some 1\<rparr>)"
  using read_returns_frame_or_empty
    [of "\<lparr>source = \<lparr>is_opus = False, pending = sconst [20, 0]\<rparr>,
       active = True, threshold = 16, duration = 25, silent_for = 24, voice = Some 1\<rparr>" "[20, 0]"]
  by simp

section \<open>Construction over an Opus source\<close>

text \<open>
  C8. Constructing a VoxSource over a source whose \<^verbatim>\<open>is_opus()\<close> is true always ends in
  the ValueError of the constructor. The five attributes assigned before the check are
  all the constructor has written: \<open>voice\<close> and \<open>task\<close> are not assigned after the
  failure, and no usable object results. The error belongs to construction only:
  neither \<^verbatim>\<open>read()\<close> nor a pass of \<^verbatim>\<open>on_vox\<close> ever raises it.
\<close>

theorem init_rejects_opus:
  assumes "is_opus src"
  shows "VoxSource_init src self =
      (Some (ValueError ''cannot use VoxSource with an Opus source''),
       self(''source'' \<mapsto> PySource src, ''active'' \<mapsto> PyBool False,
            ''threshold'' \<mapsto> PyInt 16, ''duration'' \<mapsto> PyInt 25,
            ''silent_for'' \<mapsto> PyInt 0)) \<and>
    snd (VoxSource_init src self) ''voice'' = self ''voice'' \<and>
    snd (VoxSource_init src self) ''task'' = self ''task'' \<and>
    as_VoxSource (snd (VoxSource_init src Map.empty)) = None \<and>
    fst (VoxSource_read g) \<noteq> Inl (ValueError ''cannot use VoxSource with an Opus source'') \<and>
    fst (on_vox_body g) \<noteq> Some (ValueError ''cannot use VoxSource with an Opus source'')"
proof -
  have "fst (VoxSource_read g) \<noteq> Inl (ValueError ''cannot use VoxSource with an Opus source'')"
    using VoxSource_read_error [of g] by auto
  moreover
  have "fst (on_vox_body g) \<noteq> Some (ValueError ''cannot use VoxSource with an Opus source'')"
    using on_vox_body_error [of g] by auto
  ultimately show ?thesis
    using assms by (simp add: VoxSource_init_def as_VoxSource_def)
qed

theorem init_rejects_opus_witness:
  "VoxSource_init \<lparr>is_opus = True, pending = sconst [1, 2]\<rparr> Map.empty =
      (Some (ValueError ''cannot use VoxSource with an Opus source''),
       [''source'' \<mapsto> PySource \<lparr>is_opus = True, pending = sconst [1, 2]\<rparr>,
        ''active'' \<mapsto> PyBool False, ''threshold'' \<mapsto> PyInt 16, ''duration'' \<mapsto> PyInt 25,
        ''silent_for'' \<mapsto> PyInt 0]) \<and>
   snd (VoxSource_init \<lparr>is_opus = True, pending = sconst [1, 2]\<rparr> Map.empty) ''voice'' = None"
  using init_rejects_opus [of "\<lparr>is_opus = True, pending = sconst [1, 2]\<rparr>" Map.empty]
  by simp

section \<open>Switching on\<close>

text \<open>
  C9, as the claim states it. A device that delivers the sample 256 again and again
  (bytes 00 01) gives frames of peak amplitude 256, above the threshold 16, yet no byte
  of them reaches 16: the \<^verbatim>\<open>on_vox\<close> loop never switches the inactive VoxSource on and
  never calls \<^verbatim>\<open>voice.play\<close>, here over 1000 passes. And when the wrapped source
  returns the empty buffer before a loud frame, \<^verbatim>\<open>max\<close> raises in the first pass: the
  exception ends the loop and \<^verbatim>\<open>play\<close> is never called.
\<close>

theorem on_vox_amplitude_counterexample:
  "spec_peak_amplitude [0, 1] = 256 \<and>
   on_vox 1000
     \<lparr>source = \<lparr>is_opus = False, pending = sconst [0, 1]\<rparr>,
       active = False, threshold = 16, duration = 25, silent_for = 0, voice = Some 0\<rparr> =
     (None, \<lparr>source = \<lparr>is_opus = False, pending = sconst [0, 1]\<rparr>,
       active = False, threshold = 16, duration = 25, silent_for = 0, voice = Some 0\<rparr>) \<and>
   on_vox (Suc (Suc 0))
     \<lparr>source = \<lparr>is_opus = False, pending = [] ## sconst [20, 0]\<rparr>,
       active = False, threshold = 16, duration = 25, silent_for = 0, voice = Some 0\<rparr> =
     (Some (ValueError ''max() arg is an empty sequence''),
      \<lparr>source = \<lparr>is_opus = False, pending = sconst [20, 0]\<rparr>,
       active = False, threshold = 16, duration = 25, silent_for = 0, voice = Some 0\<rparr>)"
proof -
  have "on_vox 1000
     \<lparr>source = \<lparr>is_opus = False, pending = sconst [0, 1]\<rparr>,
       active = False, threshold = 16, duration = 25, silent_for = 0, voice = Some 0\<rparr> =
     (None, \<lparr>source = \<lparr>is_opus = False, pending = sconst [0, 1]\<rparr>,
       active = False, threshold = 16, duration = 25, silent_for = 0, voice = Some 0\<rparr>)"
    by (rule on_vox_quiet [of _ "[0, 1]"]) simp_all
  moreover have "on_vox (Suc (Suc 0))
     \<lparr>source = \<lparr>is_opus = False, pending = [] ## sconst [20, 0]\<rparr>,
       active = False, threshold = 16, duration = 25, silent_for = 0, voice = Some 0\<rparr> =
     (Some (ValueError ''max() arg is an empty sequence''),
      \<lparr>source = \<lparr>is_opus = False, pending = sconst [20, 0]\<rparr>,
       active = False, threshold = 16, duration = 25, silent_for = 0, voice = Some 0\<rparr>)"
    by (simp add: on_vox_body_def VoxSource_read_def source_read_def)
  moreover have "spec_peak_amplitude [0, 1] = 256"
    by (simp add: spec_peak_amplitude_def)
  ultimately show ?thesis
    by simp
qed

text \<open>
  C9, amended. An inactive VoxSource with a voice client attached samples a run of
  non-empty frames whose bytes are all below the threshold and then a non-empty frame
  with a byte at or above it. The \<^verbatim>\<open>on_vox\<close> loop switches it on at that frame and
  calls \<^verbatim>\<open>voice.play\<close> exactly once: however many further passes \<open>k\<close> the loop makes
  before anything else touches the object, it stays active, no further frame is pulled
  and \<^verbatim>\<open>play\<close> is not called a second time.
\<close>

theorem on_vox_resumes_once:
  assumes "\<not> active self" and "voice self = Some n"
    and "pending (source self) = quiet @- (loud ## rest)"
    and "\<forall>f\<in>set quiet. f \<noteq> [] \<and> (\<forall>b\<in>set f. uint b < threshold self)"
    and "loud \<noteq> []" and "\<exists>b\<in>set loud. threshold self \<le> uint b"
  shows "on_vox (length quiet + 1 + k) self =
    (None, self\<lparr>source := (source self)\<lparr>pending := rest\<rparr>, active := True,
             voice := Some (n + 1)\<rparr>)"
  using assms
proof (induction quiet arbitrary: self)
  case Nil
  then have "on_vox_body self =
      (None, self\<lparr>source := (source self)\<lparr>pending := rest\<rparr>, active := True,
             voice := Some (n + 1)\<rparr>)"
    using on_vox_body_inactive [of self loud] by (auto simp: not_less [symmetric])
  then show ?case
    by (simp add: on_vox_active)
next
  case (Cons f quiet)
  let ?self = "self\<lparr>source := (source self)\<lparr>pending := quiet @- (loud ## rest)\<rparr>\<rparr>"
  from Cons.prems have "on_vox_body self = (None, ?self)"
    using on_vox_body_inactive [of self f] by simp
  moreover from Cons.prems have "on_vox (length quiet + 1 + k) ?self =
      (None, ?self\<lparr>source := (source ?self)\<lparr>pending := rest\<rparr>, active := True,
             voice := Some (n + 1)\<rparr>)"
    by (intro Cons.IH) simp_all
  ultimately show ?case
    by simp
qed

theorem on_vox_resumes_once_witness:
  "on_vox (length [[0, 0], [3, 0 :: byte]] + 1 + 5)
     \<lparr>source = \<lparr>is_opus = False, pending = [[0, 0], [3, 0]] @- ([20, 0] ## sconst [0, 0])\<rparr>,
       active = False, threshold = 16, duration = 25, silent_for = 0, voice = Some 0\<rparr> =
   (None, \<lparr>source = \<lparr>is_opus = False, pending = sconst [0, 0]\<rparr>,
       active = True, threshold = 16, duration = 25, silent_for = 0, voice = Some 1\<rparr>)"
  using on_vox_resumes_once
    [of "\<lparr>source = \<lparr>is_opus = False,
                    pending = [[0, 0], [3, 0]] @- ([20, 0] ## sconst [0, 0])\<rparr>,
       active = False, threshold = 16, duration = 25, silent_for = 0, voice = Some 0\<rparr>"
     0 "[[0, 0], [3, 0]]" "[20, 0]" "sconst [0, 0]" 5]
  by simp

section \<open>Reading while inactive\<close>

text \<open>
  C10. Whenever \<open>active\<close> is false, \<^verbatim>\<open>read()\<close> returns the frame of the wrapped source
  unchanged and changes no attribute of the VoxSource (\<open>active\<close>, \<open>silent_for\<close>,
  \<open>threshold\<close>, \<open>duration\<close>, the voice client): its only effect is the read of the
  wrapped source itself, so sampling through it is sampling the wrapped source.
\<close>

theorem read_inactive_transparent:
  assumes "\<not> active self"
  shows "VoxSource_read self =
      (Inr (fst (source_read (source self))),
       self\<lparr>source := snd (source_read (source self))\<rparr>) \<and>
    active (snd (VoxSource_read self)) = active self \<and>
    silent_for (snd (VoxSource_read self)) = silent_for self \<and>
    threshold (snd (VoxSource_read self)) = threshold self \<and>
    duration (snd (VoxSource_read self)) = duration self \<and>
    voice (snd (VoxSource_read self)) = voice self"
  using assms by (simp add: VoxSource_read_inactive source_read_def)

theorem read_inactive_transparent_witness:
  "VoxSource_read
     \<lparr>source = \<lparr>is_opus = False, pending = [20, 0] ## sconst [0, 0]\<rparr>,
       active = False, threshold = 16, duration = 25, silent_for = 0, voice = Some 0\<rparr> =
     (Inr [20, 0], \<lparr>source = \<lparr>is_opus = False, pending = sconst [0, 0]\<rparr>,
       active = False, threshold = 16, duration = 25, silent_for = 0, voice = Some 0\<rparr>)"
  using read_inactive_transparent
    [of "\<lparr>source = \<lparr>is_opus = False, pending = [20, 0] ## sconst [0, 0]\<rparr>,
       active = False, threshold = 16, duration = 25, silent_for = 0, voice = Some 0\<rparr>"]
  by (simp add: source_read_def)

end
